theory Spec2Isabelle
  imports Main "HOL-Library.Word"
begin

section \<open>Census manager: data model\<close>

text \<open>
  Go's \<open>error\<close> values are modelled by their text: a \<open>string option\<close>, \<open>None\<close> for
  \<open>nil\<close>. A Go function returning \<open>(v, error)\<close> is a pair, since the caller may (and in
  two places does) use the value whatever the error is.
\<close>

type_synonym go_error = "string option"

text \<open>
  Modelled from the spec: the request and response structs of package \<open>types\<close>, whose
  declarations are not among the sources. The fields are those the census manager reads
  or writes, with the types it uses them at (strings, a string list for the dump, a
  boolean verdict, int32 timestamps). The message-level fields carry a prefix, since
  the response struct has a field \<open>Request\<close> of its own.
\<close>

record CensusRequest =
  Method :: string
  CensusID :: string
  ClaimData :: string
  RootHash :: string
  ProofData :: string
  ReqTimeStamp :: "32 word"

record CensusRequestMessage =
  rm_ID :: string
  rm_Request :: CensusRequest
  rm_Signature :: string

record CensusResponse =
  Ok :: bool
  Request :: string
  Error :: string
  Root :: string
  Siblings :: string
  Idx :: string
  ValidProof :: bool
  ClaimsData :: "string list"
  TimeStamp :: "32 word"

record CensusResponseMessage =
  rs_ID :: string
  rs_Response :: CensusResponse
  rs_Signature :: string

text \<open>\<open>new(types.CensusResponse)\<close>: every field at its zero value.\<close>

definition new_CensusResponse :: CensusResponse where
  "new_CensusResponse =
     \<lparr>Ok = False, Request = [], Error = [], Root = [], Siblings = [], Idx = [],
      ValidProof = False, ClaimsData = [], TimeStamp = 0\<rparr>"

text \<open>
  Modelled from the spec: the merkle tree of package \<open>tree\<close>, which is not among the
  sources. Its operations are a parameter of the model, with the signatures of the
  tree contract. \<open>AddClaim\<close> mutates the tree in place and returns an error; here it
  returns the tree after the call as well. The other operations only read the tree, and
  a snapshot is a tree of its own.
\<close>

record 't tree_ops =
  Init :: "string \<Rightarrow> 't"
  AddClaim :: "'t \<Rightarrow> string \<Rightarrow> 't \<times> go_error"
  GetRoot :: "'t \<Rightarrow> string"
  Snapshot :: "'t \<Rightarrow> string \<Rightarrow> 't \<times> go_error"
  GenProof :: "'t \<Rightarrow> string \<Rightarrow> string \<times> go_error"
  GetIndex :: "'t \<Rightarrow> string \<Rightarrow> string \<times> go_error"
  Dump :: "'t \<Rightarrow> string list \<times> go_error"
  CheckProof :: "'t \<Rightarrow> string \<Rightarrow> string \<Rightarrow> bool \<times> go_error"

text \<open>The two package-level maps, both indexed by censusId.\<close>

record 't census_state =
  MkTrees :: "string \<rightharpoonup> 't"
  Signatures :: "string \<rightharpoonup> string"

section \<open>The operations\<close>

text \<open>
  \<open>AddNamespace\<close>: the two \<open>len(m) == 0\<close> tests replace an empty map by a fresh one;
  then both maps are written at \<open>name\<close>. Nothing is returned.
\<close>

definition AddNamespace ::
  "'t tree_ops \<Rightarrow> 't census_state \<Rightarrow> string \<Rightarrow> string \<Rightarrow> 't census_state" where
  "AddNamespace T st name pubKey =
     (let mk = (if dom (MkTrees st) = {} then Map.empty else MkTrees st);
          sg = (if dom (Signatures st) = {} then Map.empty else Signatures st);
          mkTree = Init T name
      in st\<lparr>MkTrees := mk(name \<mapsto> mkTree), Signatures := sg(name \<mapsto> pubKey)\<rparr>)"

definition authTimeWindow :: "32 word" where
  "authTimeWindow = 10"

text \<open>
  \<open>checkAuth\<close>: \<open>now\<close> is the value of \<open>time.Now().Unix()\<close> (an int64), \<open>int32(...)\<close>
  keeps its low 32 bits; the additions wrap and the comparisons are signed. \<open>Verify\<close>
  (package \<open>signature\<close>, not among the sources) is a parameter; its verdict is returned
  whatever its error is (the error is only logged).
\<close>

definition checkAuth ::
  "(string \<Rightarrow> string \<Rightarrow> string \<Rightarrow> bool \<times> go_error) \<Rightarrow> 64 word \<Rightarrow>
   32 word \<Rightarrow> string \<Rightarrow> string \<Rightarrow> string \<Rightarrow> bool" where
  "checkAuth Verify now timestamp sgn_hex pubKey message =
     (if length pubKey < 1 then True
      else
        (let currentTime = (scast now :: 32 word)
         in if timestamp <s currentTime + authTimeWindow \<and>
               currentTime - authTimeWindow <s timestamp
            then (case Verify message sgn_hex pubKey of (v, err) \<Rightarrow> v)
            else False))"

text \<open>
  The Auth Gate in the words of the specification: an empty key authorizes; otherwise
  the timestamp lies in \<open>[now - W, now + W]\<close>, \<open>W = 10\<close>, and the verification returns
  valid with no error.
\<close>

definition spec_authorize ::
  "(string \<Rightarrow> string \<Rightarrow> string \<Rightarrow> bool \<times> go_error) \<Rightarrow> 64 word \<Rightarrow>
   32 word \<Rightarrow> string \<Rightarrow> string \<Rightarrow> string \<Rightarrow> bool" where
  "spec_authorize Verify now timestamp signature authKey message =
     (if authKey = [] then True
      else sint now - 10 \<le> sint timestamp \<and> sint timestamp \<le> sint now + 10 \<and>
           Verify message signature authKey = (True, None))"

text \<open>
  \<open>Handler\<close>: returns the response and the state after the request. The loop over the
  keys of \<open>MkTrees\<close> finds the census exactly when the map is defined at \<open>CensusID\<close>.
\<close>

definition Handler ::
  "'t tree_ops \<Rightarrow> 64 word \<Rightarrow> 't census_state \<Rightarrow> CensusRequest \<Rightarrow> bool \<Rightarrow>
   CensusResponse \<times> 't census_state" where
  "Handler T now st r isAuth =
     (let op = Method r;
          resp = new_CensusResponse\<lparr>Ok := True, Error := [], TimeStamp := scast now\<rparr>
      in case MkTrees st (CensusID r) of
           None \<Rightarrow> (resp\<lparr>Ok := False, Error := ''censusId not valid or not found''\<rparr>, st)
         | Some live \<Rightarrow>
             if op = ''getRoot'' then (resp\<lparr>Root := GetRoot T live\<rparr>, st)
             else if op = ''addClaim'' then
               (if isAuth then
                  (case AddClaim T live (ClaimData r) of
                     (live', Some e) \<Rightarrow>
                       (resp\<lparr>Ok := False, Error := e\<rparr>,
                        st\<lparr>MkTrees := (MkTrees st)(CensusID r \<mapsto> live')\<rparr>)
                   | (live', None) \<Rightarrow>
                       (resp, st\<lparr>MkTrees := (MkTrees st)(CensusID r \<mapsto> live')\<rparr>))
                else (resp\<lparr>Ok := False, Error := ''invalid authentication''\<rparr>, st))
             else
               (case (if length (RootHash r) > 1 then Snapshot T live (RootHash r)
                      else (live, None)) of
                  (t, Some e) \<Rightarrow> (resp\<lparr>Ok := False, Error := ''invalid root hash''\<rparr>, st)
                | (t, None) \<Rightarrow>
                    if op = ''genProof'' then
                      (case GenProof T t (ClaimData r) of
                         (s, Some e) \<Rightarrow> (resp\<lparr>Siblings := s, Ok := False, Error := e\<rparr>, st)
                       | (s, None) \<Rightarrow> (resp\<lparr>Siblings := s\<rparr>, st))
                    else if op = ''getIdx'' then
                      (case GetIndex T t (ClaimData r) of
                         (i, err) \<Rightarrow> (resp\<lparr>Idx := i\<rparr>, st))
                    else if op = ''dump'' then
                      (if \<not> isAuth then
                         (resp\<lparr>Ok := False, Error := ''invalid authentication''\<rparr>, st)
                       else
                         (case Dump T t of
                            (values, Some e) \<Rightarrow> (resp\<lparr>Ok := False, Error := e\<rparr>, st)
                          | (values, None) \<Rightarrow> (resp\<lparr>ClaimsData := values\<rparr>, st)))
                    else if op = ''checkProof'' then
                      (if length (ProofData r) < 1 then
                         (resp\<lparr>Ok := False, Error := ''proofData not provided''\<rparr>, st)
                       else
                         (case CheckProof T t (ClaimData r) (ProofData r) of
                            (validProof, Some e) \<Rightarrow> (resp\<lparr>Ok := False, Error := e\<rparr>, st)
                          | (validProof, None) \<Rightarrow>
                              (if validProof then (resp\<lparr>ValidProof := True\<rparr>, st)
                               else (resp\<lparr>ValidProof := False\<rparr>, st))))
                    else (resp, st)))"

text \<open>
  The tree an operation with a \<open>rootHash\<close> runs on, as \<open>Handler\<close> picks it (the block
  before \<open>genProof\<close>), and the response as it stands after \<open>Handler\<close>'s first
  assignments; both are used to state what \<open>Handler\<close> returns.
\<close>

definition selected_view :: "'t tree_ops \<Rightarrow> 't \<Rightarrow> string \<Rightarrow> 't \<times> go_error" where
  "selected_view T live rootHash =
     (if length rootHash > 1 then Snapshot T live rootHash else (live, None))"

definition fresh_response :: "64 word \<Rightarrow> CensusResponse" where
  "fresh_response now = new_CensusResponse\<lparr>Ok := True, Error := [], TimeStamp := scast now\<rparr>"

text \<open>
  The transport adapter. \<open>checkRequest\<close> returns what it wrote to the
  \<open>ResponseWriter\<close>, if anything, and its verdict. The request body is decoded by the
  JSON decoder (a parameter, as are the signer and the encoder) once \<open>checkRequest\<close> has
  found it present; what is written to the \<open>ResponseWriter\<close> is the outcome.
\<close>

datatype http_outcome = HttpError nat string | HttpReply string

definition checkRequest :: "string option \<Rightarrow> http_outcome option \<times> bool" where
  "checkRequest body =
     (case body of
        None \<Rightarrow> (Some (HttpError 400 ''Please send a request body''), False)
      | Some b \<Rightarrow> (None, True))"

definition httpReply ::
  "(CensusResponseMessage \<Rightarrow> string \<times> go_error) \<Rightarrow> CensusResponseMessage \<Rightarrow> http_outcome" where
  "httpReply encodeJSON resp =
     (case encodeJSON resp of
        (out, Some e) \<Rightarrow> HttpError 500 e
      | (out, None) \<Rightarrow> HttpReply out)"

definition HTTPhandler ::
  "'t tree_ops \<Rightarrow> (string \<Rightarrow> CensusRequestMessage \<times> go_error) \<Rightarrow>
   (CensusResponse \<Rightarrow> string \<times> go_error) \<Rightarrow>
   (CensusResponseMessage \<Rightarrow> string \<times> go_error) \<Rightarrow>
   64 word \<Rightarrow> 't census_state \<Rightarrow> string option \<Rightarrow> http_outcome \<times> 't census_state" where
  "HTTPhandler T decodeJSON SignJSON encodeJSON now st body =
     (case checkRequest body of
        (Some out, ok) \<Rightarrow> (out, st)
      | (None, ok) \<Rightarrow>
          (case decodeJSON (the body) of
             (rm, Some e) \<Rightarrow> (HttpError 400 e, st)
           | (rm, None) \<Rightarrow>
               if length (Method (rm_Request rm)) < 1
               then (HttpError 400 ''method must be specified'', st)
               else
                 (case Handler T now st (rm_Request rm) True of
                    (resp, st') \<Rightarrow>
                      (let response = resp\<lparr>Request := rm_ID rm\<rparr>;
                           respMsg = \<lparr>rs_ID = rm_ID rm, rs_Response = response,
                                      rs_Signature = fst (SignJSON response)\<rparr>
                       in (httpReply encodeJSON respMsg, st')))))"

section \<open>What the dispatcher expects of the tree\<close>

text \<open>
  The conventions of a Go callee that the dispatcher relies on when it copies
  \<open>err.Error()\<close> into the response: an error has a text, and \<open>GenProof\<close> returns the
  zero value along with an error.
\<close>

definition tree_error_convention :: "'t tree_ops \<Rightarrow> bool" where
  "tree_error_convention T \<longleftrightarrow>
     (\<forall>t c. snd (AddClaim T t c) \<noteq> Some []) \<and>
     (\<forall>t c. snd (GenProof T t c) \<noteq> Some []) \<and>
     (\<forall>t c. snd (GenProof T t c) \<noteq> None \<longrightarrow> fst (GenProof T t c) = []) \<and>
     (\<forall>t. snd (Dump T t) \<noteq> Some []) \<and>
     (\<forall>t c p. snd (CheckProof T t c p) \<noteq> Some [])"

text \<open>The operation results of a response are all at their zero value.\<close>

definition no_result :: "CensusResponse \<Rightarrow> bool" where
  "no_result resp \<longleftrightarrow>
     Root resp = [] \<and> Siblings resp = [] \<and> Idx resp = [] \<and> ClaimsData resp = [] \<and>
     \<not> ValidProof resp"

section \<open>A reference tree\<close>

text \<open>
  A tree that is the list of its claims in insertion order, for running the dispatcher
  on concrete requests. Its root is the claims joined behind a marker; its historical
  roots are the roots of the prefixes of the list.
\<close>

definition ref_root :: "string list \<Rightarrow> string" where
  "ref_root cs = CHR ''r'' # concat (map (\<lambda>c. c @ '';'') cs)"

fun ref_snapshot :: "string list \<Rightarrow> string list \<Rightarrow> string \<Rightarrow> string list \<times> go_error" where
  "ref_snapshot seen [] rh =
     (if ref_root seen = rh then (seen, None) else ([], Some ''root not found''))"
| "ref_snapshot seen (c # cs) rh =
     (if ref_root seen = rh then (seen, None) else ref_snapshot (seen @ [c]) cs rh)"

definition ref_tree :: "string list tree_ops" where
  "ref_tree =
     \<lparr>Init = (\<lambda>name. []),
      AddClaim = (\<lambda>t c. if c \<in> set t then (t, Some ''claim already exists'')
                         else (t @ [c], None)),
      GetRoot = ref_root,
      Snapshot = (\<lambda>t rh. ref_snapshot [] t rh),
      GenProof = (\<lambda>t c. if c \<in> set t then (''proof:'' @ c, None)
                         else ([], Some ''claim not found'')),
      GetIndex = (\<lambda>t c. if c \<in> set t
                         then (replicate (length (takeWhile (\<lambda>x. x \<noteq> c) t)) CHR ''i'', None)
                         else ([], Some ''claim not found'')),
      Dump = (\<lambda>t. (t, None)),
      CheckProof = (\<lambda>t c p. if take 6 p = ''proof:'' then (c \<in> set t \<and> p = ''proof:'' @ c, None)
                             else (False, Some ''malformed proof''))\<rparr>"

definition one_census :: "string list census_state" where
  "one_census = \<lparr>MkTrees = [''census1'' \<mapsto> [''alice'']], Signatures = [''census1'' \<mapsto> ''key1'']\<rparr>"

definition request :: "string \<Rightarrow> string \<Rightarrow> string \<Rightarrow> string \<Rightarrow> string \<Rightarrow> CensusRequest" where
  "request m c d h p =
     \<lparr>Method = m, CensusID = c, ClaimData = d, RootHash = h, ProofData = p, ReqTimeStamp = 0\<rparr>"

text \<open>
  A decoder that knows two request bodies, which differ in the timestamp and the
  signature only; a signer and an encoder that show what they were given.
\<close>

definition dump_message :: "32 word \<Rightarrow> string \<Rightarrow> CensusRequestMessage" where
  "dump_message ts sg =
     \<lparr>rm_ID = ''req1'',
      rm_Request = (request ''dump'' ''census1'' [] [] [])\<lparr>ReqTimeStamp := ts\<rparr>,
      rm_Signature = sg\<rparr>"

definition ref_decode :: "string \<Rightarrow> CensusRequestMessage \<times> go_error" where
  "ref_decode b =
     (if b = ''dump, signed now'' then (dump_message 1000 ''0xsig'', None)
      else if b = ''dump, unsigned'' then (dump_message 0 [], None)
      else (dump_message 0 [], Some ''invalid character''))"

definition ref_sign :: "CensusResponse \<Rightarrow> string \<times> go_error" where
  "ref_sign resp = (''signed:'' @ Request resp, None)"

definition ref_encode :: "CensusResponseMessage \<Rightarrow> string \<times> go_error" where
  "ref_encode msg =
     (rs_ID msg @ (if Ok (rs_Response msg) then '' ok '' else '' error '') @
      Error (rs_Response msg) @ concat (ClaimsData (rs_Response msg)), None)"

section \<open>Arithmetic of the 32-bit clock\<close>

lemma sint_scast_now:
  fixes now :: "64 word"
  assumes "- (2 ^ 31) \<le> sint now" "sint now < 2 ^ 31"
  shows "sint (scast now :: 32 word) = sint now"
proof -
  have "sint (scast now :: 32 word) = sint (word_of_int (sint now) :: 32 word)"
    by simp
  also have "\<dots> = signed_take_bit 31 (sint now)"
    by (simp only: sint_sbintrunc') simp
  also have "\<dots> = sint now"
    using assms by (intro signed_take_bit_int_eq_self) simp_all
  finally show ?thesis .
qed

lemma sint_plus_window:
  fixes c :: "32 word"
  assumes "sint c \<le> 2 ^ 31 - 1 - 10"
  shows "sint (c + authTimeWindow) = sint c + 10"
proof -
  have "- (2 ^ 31) \<le> sint c" using sint_ge [of c] by simp
  with assms show ?thesis
    by (simp add: authTimeWindow_def sint_word_add signed_take_bit_int_eq_self)
qed

lemma sint_minus_window:
  fixes c :: "32 word"
  assumes "- (2 ^ 31) + 10 \<le> sint c"
  shows "sint (c - authTimeWindow) = sint c - 10"
proof -
  have "sint c < 2 ^ 31" using sint_lt [of c] by simp
  with assms show ?thesis
    by (simp add: authTimeWindow_def sint_word_diff signed_take_bit_int_eq_self)
qed

section \<open>The dispatcher, branch by branch\<close>

text \<open>
  One equation for each path through \<open>Handler\<close>: the census is unknown; \<open>getRoot\<close>;
  \<open>addClaim\<close>; the snapshot fails; and, on the selected view, \<open>genProof\<close>, \<open>getIdx\<close>,
  \<open>dump\<close>, \<open>checkProof\<close> and any other method.
\<close>

lemma Handler_unknown:
  "MkTrees st (CensusID r) = None \<Longrightarrow>
   Handler T now st r isAuth =
     ((fresh_response now)\<lparr>Ok := False, Error := ''censusId not valid or not found''\<rparr>, st)"
  by (simp add: Handler_def fresh_response_def split: prod.split option.split)

lemma Handler_getRoot:
  "MkTrees st (CensusID r) = Some live \<Longrightarrow> Method r = ''getRoot'' \<Longrightarrow>
   Handler T now st r isAuth = ((fresh_response now)\<lparr>Root := GetRoot T live\<rparr>, st)"
  by (simp add: Handler_def fresh_response_def split: prod.split option.split)

lemma Handler_addClaim:
  "MkTrees st (CensusID r) = Some live \<Longrightarrow> Method r = ''addClaim'' \<Longrightarrow>
   Handler T now st r isAuth =
     (if isAuth then
        (case AddClaim T live (ClaimData r) of
           (live', Some e) \<Rightarrow>
             ((fresh_response now)\<lparr>Ok := False, Error := e\<rparr>,
              st\<lparr>MkTrees := (MkTrees st)(CensusID r \<mapsto> live')\<rparr>)
         | (live', None) \<Rightarrow>
             (fresh_response now, st\<lparr>MkTrees := (MkTrees st)(CensusID r \<mapsto> live')\<rparr>))
      else ((fresh_response now)\<lparr>Ok := False, Error := ''invalid authentication''\<rparr>, st))"
  by (simp add: Handler_def fresh_response_def split: prod.split option.split)

lemma Handler_bad_root:
  "MkTrees st (CensusID r) = Some live \<Longrightarrow> Method r \<noteq> ''getRoot'' \<Longrightarrow>
   Method r \<noteq> ''addClaim'' \<Longrightarrow> selected_view T live (RootHash r) = (t, Some e) \<Longrightarrow>
   Handler T now st r isAuth =
     ((fresh_response now)\<lparr>Ok := False, Error := ''invalid root hash''\<rparr>, st)"
  by (simp add: Handler_def fresh_response_def selected_view_def split: prod.split option.split)

lemma Handler_genProof:
  "MkTrees st (CensusID r) = Some live \<Longrightarrow> Method r = ''genProof'' \<Longrightarrow>
   selected_view T live (RootHash r) = (t, None) \<Longrightarrow>
   Handler T now st r isAuth =
     (case GenProof T t (ClaimData r) of
        (s, Some e) \<Rightarrow> ((fresh_response now)\<lparr>Siblings := s, Ok := False, Error := e\<rparr>, st)
      | (s, None) \<Rightarrow> ((fresh_response now)\<lparr>Siblings := s\<rparr>, st))"
  by (simp add: Handler_def fresh_response_def selected_view_def split: prod.split option.split)

lemma Handler_getIdx:
  "MkTrees st (CensusID r) = Some live \<Longrightarrow> Method r = ''getIdx'' \<Longrightarrow>
   selected_view T live (RootHash r) = (t, None) \<Longrightarrow>
   Handler T now st r isAuth =
     ((fresh_response now)\<lparr>Idx := fst (GetIndex T t (ClaimData r))\<rparr>, st)"
  by (simp add: Handler_def fresh_response_def selected_view_def split: prod.splits)

lemma Handler_dump:
  "MkTrees st (CensusID r) = Some live \<Longrightarrow> Method r = ''dump'' \<Longrightarrow>
   selected_view T live (RootHash r) = (t, None) \<Longrightarrow>
   Handler T now st r isAuth =
     (if \<not> isAuth then
        ((fresh_response now)\<lparr>Ok := False, Error := ''invalid authentication''\<rparr>, st)
      else
        (case Dump T t of
           (values, Some e) \<Rightarrow> ((fresh_response now)\<lparr>Ok := False, Error := e\<rparr>, st)
         | (values, None) \<Rightarrow> ((fresh_response now)\<lparr>ClaimsData := values\<rparr>, st)))"
  by (simp add: Handler_def fresh_response_def selected_view_def split: prod.split option.split)

lemma Handler_checkProof:
  "MkTrees st (CensusID r) = Some live \<Longrightarrow> Method r = ''checkProof'' \<Longrightarrow>
   selected_view T live (RootHash r) = (t, None) \<Longrightarrow>
   Handler T now st r isAuth =
     (if ProofData r = [] then
        ((fresh_response now)\<lparr>Ok := False, Error := ''proofData not provided''\<rparr>, st)
      else
        (case CheckProof T t (ClaimData r) (ProofData r) of
           (v, Some e) \<Rightarrow> ((fresh_response now)\<lparr>Ok := False, Error := e\<rparr>, st)
         | (v, None) \<Rightarrow> ((fresh_response now)\<lparr>ValidProof := v\<rparr>, st)))"
  by (cases "ProofData r")
     (auto simp add: Handler_def Let_def fresh_response_def selected_view_def
           split: prod.splits option.splits)

lemma Handler_other:
  "MkTrees st (CensusID r) = Some live \<Longrightarrow>
   Method r \<notin> {''getRoot'', ''addClaim'', ''genProof'', ''getIdx'', ''dump'', ''checkProof''} \<Longrightarrow>
   selected_view T live (RootHash r) = (t, None) \<Longrightarrow>
   Handler T now st r isAuth = (fresh_response now, st)"
  by (simp add: Handler_def fresh_response_def selected_view_def split: prod.split option.split)

lemma Handler_paths [case_names unknown getRoot addClaim bad_root genProof getIdx dump checkProof other]:
  obtains
    "MkTrees st (CensusID r) = None"
  | live where "MkTrees st (CensusID r) = Some live" "Method r = ''getRoot''"
  | live where "MkTrees st (CensusID r) = Some live" "Method r = ''addClaim''"
  | live t e where "MkTrees st (CensusID r) = Some live" "Method r \<noteq> ''getRoot''"
      "Method r \<noteq> ''addClaim''" "selected_view T live (RootHash r) = (t, Some e)"
  | live t where "MkTrees st (CensusID r) = Some live" "Method r = ''genProof''"
      "selected_view T live (RootHash r) = (t, None)"
  | live t where "MkTrees st (CensusID r) = Some live" "Method r = ''getIdx''"
      "selected_view T live (RootHash r) = (t, None)"
  | live t where "MkTrees st (CensusID r) = Some live" "Method r = ''dump''"
      "selected_view T live (RootHash r) = (t, None)"
  | live t where "MkTrees st (CensusID r) = Some live" "Method r = ''checkProof''"
      "selected_view T live (RootHash r) = (t, None)"
  | live t where "MkTrees st (CensusID r) = Some live"
      "Method r \<notin> {''getRoot'', ''addClaim'', ''genProof'', ''getIdx'', ''dump'', ''checkProof''}"
      "selected_view T live (RootHash r) = (t, None)"
proof (cases "MkTrees st (CensusID r)")
  case None
  then show ?thesis by (rule that(1))
next
  case (Some live)
  obtain t err where view: "selected_view T live (RootHash r) = (t, err)"
    by (cases "selected_view T live (RootHash r)")
  show ?thesis
  proof (cases "Method r = ''getRoot''")
    case True
    with Some show ?thesis by (rule that(2))
  next
    case notRoot: False
    show ?thesis
    proof (cases "Method r = ''addClaim''")
      case True
      with Some show ?thesis by (rule that(3))
    next
      case notAdd: False
      show ?thesis
      proof (cases err)
        case (Some e)
        with view have "selected_view T live (RootHash r) = (t, Some e)" by simp
        with \<open>MkTrees st (CensusID r) = Some live\<close> notRoot notAdd show ?thesis
          by (rule that(4))
      next
        case None
        with view have v: "selected_view T live (RootHash r) = (t, None)" by simp
        note reg = \<open>MkTrees st (CensusID r) = Some live\<close>
        consider "Method r = ''genProof''" | "Method r = ''getIdx''" | "Method r = ''dump''"
          | "Method r = ''checkProof''"
          | "Method r \<notin> {''getRoot'', ''addClaim'', ''genProof'', ''getIdx'', ''dump'', ''checkProof''}"
          using notRoot notAdd by blast
        then show ?thesis
        proof cases
          case 1 with reg show ?thesis using v by (rule that(5))
        next
          case 2 with reg show ?thesis using v by (rule that(6))
        next
          case 3 with reg show ?thesis using v by (rule that(7))
        next
          case 4 with reg show ?thesis using v by (rule that(8))
        next
          case 5 with reg show ?thesis using v by (rule that(9))
        qed
      qed
    qed
  qed
qed

lemma Handler_state:
  "snd (Handler T now st r isAuth) =
     (case MkTrees st (CensusID r) of
        None \<Rightarrow> st
      | Some live \<Rightarrow>
          if Method r = ''addClaim'' \<and> isAuth
          then st\<lparr>MkTrees := (MkTrees st)(CensusID r \<mapsto> fst (AddClaim T live (ClaimData r)))\<rparr>
          else st)"
proof (cases rule: Handler_paths [where st = st and r = r and T = T])
  case unknown
  then show ?thesis by (simp add: Handler_unknown)
next
  case (getRoot live)
  then show ?thesis by (simp add: Handler_getRoot)
next
  case (addClaim live)
  then show ?thesis by (simp add: Handler_addClaim split: prod.split option.split)
next
  case (bad_root live t e)
  then show ?thesis by (simp add: Handler_bad_root)
next
  case (genProof live t)
  then show ?thesis by (simp add: Handler_genProof split: prod.split option.split)
next
  case (getIdx live t)
  then show ?thesis by (simp add: Handler_getIdx)
next
  case (dump live t)
  then show ?thesis by (simp add: Handler_dump split: prod.split option.split)
next
  case (checkProof live t)
  then show ?thesis by (simp add: Handler_checkProof split: prod.split option.split)
next
  case (other live t)
  then show ?thesis by (simp add: Handler_other)
qed

section \<open>The Auth Gate\<close>

text \<open>
  C1 (as stated, refuted). The specification's gate accepts a timestamp exactly \<open>W\<close>
  seconds after the clock; \<open>checkAuth\<close> rejects it, although the key is non-empty and
  the signature verifies without error: its two comparisons are strict.
\<close>

theorem checkAuth_boundary_counterexample:
  "spec_authorize (\<lambda>m s k. (True, None)) 1000 1010 ''sig'' ''key'' ''msg'' \<and>
   \<not> checkAuth (\<lambda>m s k. (True, None)) 1000 1010 ''sig'' ''key'' ''msg''"
  by (simp add: checkAuth_def spec_authorize_def authTimeWindow_def word_sless_alt)

text \<open>
  C1 (amended). With an empty key \<open>checkAuth\<close> authorizes unconditionally. With a
  non-empty key, a clock whose reading is at least \<open>W\<close> away from the limits of int32,
  and a verification that returns no valid verdict together with an error,
  \<open>checkAuth\<close> authorizes exactly when \<open>now - W < timestamp < now + W\<close> (both bounds
  exclusive) and the verification returns valid with no error.
\<close>

theorem checkAuth_window:
  "(pubKey = [] \<longrightarrow> checkAuth Verify now timestamp sg pubKey message) \<and>
   (pubKey \<noteq> [] \<longrightarrow> - (2 ^ 31) + 10 \<le> sint now \<longrightarrow> sint now \<le> 2 ^ 31 - 1 - 10 \<longrightarrow>
    (\<forall>e. Verify message sg pubKey \<noteq> (True, Some e)) \<longrightarrow>
    checkAuth Verify now timestamp sg pubKey message =
      (sint now - 10 < sint timestamp \<and> sint timestamp < sint now + 10 \<and>
       Verify message sg pubKey = (True, None)))"
proof (intro conjI impI)
  assume "pubKey = []"
  then show "checkAuth Verify now timestamp sg pubKey message"
    by (simp add: checkAuth_def)
next
  assume key: "pubKey \<noteq> []"
    and lo: "- (2 ^ 31) + 10 \<le> sint now"
    and hi: "sint now \<le> 2 ^ 31 - 1 - 10"
    and ver: "\<forall>e. Verify message sg pubKey \<noteq> (True, Some e)"
  have now32: "sint (scast now :: 32 word) = sint now"
    using lo hi by (intro sint_scast_now) simp_all
  have up: "sint ((scast now :: 32 word) + authTimeWindow) = sint now + 10"
    using hi by (simp add: sint_plus_window now32)
  have down: "sint ((scast now :: 32 word) - authTimeWindow) = sint now - 10"
    using lo by (simp add: sint_minus_window now32)
  have verdict: "(case Verify message sg pubKey of (v, err) \<Rightarrow> v) =
                 (Verify message sg pubKey = (True, None))"
    using ver by (cases "Verify message sg pubKey") auto
  from key have "\<not> length pubKey < 1" by (cases pubKey) simp_all
  then show "checkAuth Verify now timestamp sg pubKey message =
      (sint now - 10 < sint timestamp \<and> sint timestamp < sint now + 10 \<and>
       Verify message sg pubKey = (True, None))"
    unfolding checkAuth_def Let_def word_sless_alt up down verdict by auto
qed

theorem checkAuth_window_witness:
  "checkAuth (\<lambda>m s k. (True, None)) 1000 1009 ''sig'' ''key'' ''msg'' \<and>
   \<not> checkAuth (\<lambda>m s k. (True, None)) 1000 990 ''sig'' ''key'' ''msg'' \<and>
   \<not> checkAuth (\<lambda>m s k. (False, Some ''bad signature'')) 1000 1000 ''sig'' ''key'' ''msg'' \<and>
   checkAuth (\<lambda>m s k. (False, Some ''bad signature'')) 1000 5 ''sig'' [] ''msg''"
  using checkAuth_window [of "''key''" "\<lambda>m s k. (True, None)" 1000 1009 "''sig''" "''msg''"]
        checkAuth_window [of "''key''" "\<lambda>m s k. (True, None)" 1000 990 "''sig''" "''msg''"]
        checkAuth_window [of "''key''" "\<lambda>m s k. (False, Some ''bad signature'')" 1000 1000 "''sig''" "''msg''"]
        checkAuth_window [of "[]" "\<lambda>m s k. (False, Some ''bad signature'')" 1000 5 "''sig''" "''msg''"]
  by simp

section \<open>Unknown census\<close>

text \<open>
  C7. When the census id of a request is not registered, \<open>Handler\<close> answers
  \<open>ok = false\<close>, \<open>error = "censusId not valid or not found"\<close>, whatever the method, the
  authorization flag, the other fields of the request and the tree operations are: the
  test comes first, no tree is consulted, and the state is as before.
\<close>

theorem Handler_unknown_census:
  "MkTrees st (CensusID r) = None \<Longrightarrow>
   fst (Handler T now st r isAuth) =
     (fresh_response now)\<lparr>Ok := False, Error := ''censusId not valid or not found''\<rparr> \<and>
   snd (Handler T now st r isAuth) = st"
  by (simp add: Handler_def fresh_response_def)

theorem Handler_unknown_census_witness:
  "MkTrees one_census (CensusID (request ''dump'' ''census2'' [] [] [])) = None \<and>
   Handler ref_tree 1000 one_census (request ''dump'' ''census2'' [] [] []) False =
     (\<lparr>Ok = False, Request = [], Error = ''censusId not valid or not found'', Root = [],
       Siblings = [], Idx = [], ValidProof = False, ClaimsData = [], TimeStamp = 1000\<rparr>,
      one_census)"
  using Handler_unknown_census [of one_census "request ''dump'' ''census2'' [] [] []" ref_tree 1000 False]
  by (simp add: one_census_def request_def fresh_response_def new_CensusResponse_def prod_eq_iff)

section \<open>What a request may change\<close>

text \<open>
  C10. \<open>Handler\<close> never changes the map of keys, nor the set of registered census ids,
  nor the tree of any census other than the one the request names. Unless the request
  is an \<open>addClaim\<close> with the authorization flag set, the state is exactly as before; an
  authorized \<open>addClaim\<close> on a registered census replaces that census's live tree by the
  tree after \<open>AddClaim\<close>.
\<close>

theorem Handler_frame:
  "Signatures (snd (Handler T now st r isAuth)) = Signatures st \<and>
   dom (MkTrees (snd (Handler T now st r isAuth))) = dom (MkTrees st) \<and>
   (\<forall>k. k \<noteq> CensusID r \<longrightarrow> MkTrees (snd (Handler T now st r isAuth)) k = MkTrees st k) \<and>
   (\<not> (Method r = ''addClaim'' \<and> isAuth) \<longrightarrow> snd (Handler T now st r isAuth) = st) \<and>
   (\<forall>live. Method r = ''addClaim'' \<and> isAuth \<and> MkTrees st (CensusID r) = Some live \<longrightarrow>
      snd (Handler T now st r isAuth) =
        st\<lparr>MkTrees := (MkTrees st)(CensusID r \<mapsto> fst (AddClaim T live (ClaimData r)))\<rparr>)"
  unfolding Handler_state by (auto split: option.splits)

theorem Handler_frame_witness:
  "snd (Handler ref_tree 1000 one_census (request ''addClaim'' ''census1'' ''bob'' [] []) True) =
     \<lparr>MkTrees = [''census1'' \<mapsto> [''alice'', ''bob'']], Signatures = [''census1'' \<mapsto> ''key1'']\<rparr> \<and>
   snd (Handler ref_tree 1000 one_census (request ''addClaim'' ''census1'' ''bob'' [] []) False) =
     one_census \<and>
   snd (Handler ref_tree 1000 one_census (request ''dump'' ''census1'' [] [] []) True) = one_census"
  using Handler_frame [of ref_tree 1000 one_census "request ''addClaim'' ''census1'' ''bob'' [] []" True]
        Handler_frame [of ref_tree 1000 one_census "request ''addClaim'' ''census1'' ''bob'' [] []" False]
        Handler_frame [of ref_tree 1000 one_census "request ''dump'' ''census1'' [] [] []" True]
  by (simp add: one_census_def request_def ref_tree_def)

section \<open>checkProof\<close>

text \<open>
  C9. For a \<open>checkProof\<close> request on a registered census: with an empty \<open>proofData\<close>
  the response has \<open>ok = false\<close> and a non-empty error; with a non-empty \<open>proofData\<close>,
  when the check runs (on the view \<open>t\<close> the request selects) and returns the verdict
  \<open>v\<close> without error, the response has \<open>ok = true\<close>, no error, and \<open>validProof = v\<close>. So
  a well-formed proof that does not verify gives \<open>ok = true\<close>, \<open>validProof = false\<close>.
\<close>

theorem Handler_checkProof_outcome:
  "MkTrees st (CensusID r) = Some live \<Longrightarrow> Method r = ''checkProof'' \<Longrightarrow>
   (ProofData r = [] \<longrightarrow>
      \<not> Ok (fst (Handler T now st r isAuth)) \<and> Error (fst (Handler T now st r isAuth)) \<noteq> []) \<and>
   (ProofData r \<noteq> [] \<and> selected_view T live (RootHash r) = (t, None) \<and>
          CheckProof T t (ClaimData r) (ProofData r) = (v, None) \<longrightarrow>
      Ok (fst (Handler T now st r isAuth)) \<and> Error (fst (Handler T now st r isAuth)) = [] \<and>
      ValidProof (fst (Handler T now st r isAuth)) = v)"
proof (intro conjI impI)
  assume reg: "MkTrees st (CensusID r) = Some live" and m: "Method r = ''checkProof''"
    and empty: "ProofData r = []"
  obtain t err where view: "selected_view T live (RootHash r) = (t, err)"
    by (cases "selected_view T live (RootHash r)")
  show "\<not> Ok (fst (Handler T now st r isAuth))"
    using reg m empty view
    by (cases err) (simp_all add: Handler_checkProof Handler_bad_root)
  show "Error (fst (Handler T now st r isAuth)) \<noteq> []"
    using reg m empty view
    by (cases err) (simp_all add: Handler_checkProof Handler_bad_root)
next
  assume reg: "MkTrees st (CensusID r) = Some live" and m: "Method r = ''checkProof''"
    and run: "ProofData r \<noteq> [] \<and> selected_view T live (RootHash r) = (t, None) \<and>
          CheckProof T t (ClaimData r) (ProofData r) = (v, None)"
  then have eq: "Handler T now st r isAuth = ((fresh_response now)\<lparr>ValidProof := v\<rparr>, st)"
    by (simp add: Handler_checkProof)
  show "Ok (fst (Handler T now st r isAuth))" by (simp add: eq fresh_response_def)
  show "Error (fst (Handler T now st r isAuth)) = []" by (simp add: eq fresh_response_def)
  show "ValidProof (fst (Handler T now st r isAuth)) = v" by (simp add: eq)
qed

theorem Handler_checkProof_outcome_witness:
  "(let resp = fst (Handler ref_tree 1000 one_census
                     (request ''checkProof'' ''census1'' ''bob'' [] ''proof:alice'') False)
    in Ok resp \<and> Error resp = [] \<and> \<not> ValidProof resp) \<and>
   (let resp = fst (Handler ref_tree 1000 one_census
                     (request ''checkProof'' ''census1'' ''alice'' [] ''proof:alice'') False)
    in Ok resp \<and> Error resp = [] \<and> ValidProof resp) \<and>
   (let resp = fst (Handler ref_tree 1000 one_census
                     (request ''checkProof'' ''census1'' ''alice'' [] []) False)
    in \<not> Ok resp \<and> Error resp \<noteq> [])"
  using Handler_checkProof_outcome [where st = one_census and live = "[''alice'']" and T = ref_tree
          and r = "request ''checkProof'' ''census1'' ''bob'' [] ''proof:alice''"
          and t = "[''alice'']" and v = False and now = 1000 and isAuth = False]
        Handler_checkProof_outcome [where st = one_census and live = "[''alice'']" and T = ref_tree
          and r = "request ''checkProof'' ''census1'' ''alice'' [] ''proof:alice''"
          and t = "[''alice'']" and v = True and now = 1000 and isAuth = False]
        Handler_checkProof_outcome [where st = one_census and live = "[''alice'']" and T = ref_tree
          and r = "request ''checkProof'' ''census1'' ''alice'' [] []"
          and t = "[''alice'']" and v = True and now = 1000 and isAuth = False]
  by (simp add: one_census_def request_def ref_tree_def selected_view_def)

section \<open>Privileged operations without authorization\<close>

text \<open>
  C8 (as stated, refuted). An unauthorized \<open>dump\<close> on a registered census whose
  \<open>rootHash\<close> is not a root of the tree is answered \<open>"invalid root hash"\<close>, not
  \<open>"invalid authentication"\<close>: the snapshot is resolved before the flag is looked at.
\<close>

theorem Handler_dump_bad_root_counterexample:
  "MkTrees one_census ''census1'' = Some [''alice''] \<and>
   Handler ref_tree 1000 one_census (request ''dump'' ''census1'' [] ''r-unknown'' []) False =
     (\<lparr>Ok = False, Request = [], Error = ''invalid root hash'', Root = [],
       Siblings = [], Idx = [], ValidProof = False, ClaimsData = [], TimeStamp = 1000\<rparr>,
      one_census)"
  by (simp add: Handler_def one_census_def request_def ref_tree_def ref_root_def
        new_CensusResponse_def)

text \<open>
  C8 (amended). On a registered census, with the authorization flag false: an
  \<open>addClaim\<close> is answered \<open>ok = false\<close>, \<open>error = "invalid authentication"\<close> and the state
  (so the tree) is as before; a \<open>dump\<close> is answered the same when its view resolves
  (no \<open>rootHash\<close>, or a snapshot without error), and \<open>ok = false\<close>,
  \<open>error = "invalid root hash"\<close> when the snapshot fails. No claims are returned.
\<close>

theorem Handler_unauthorized:
  "MkTrees st (CensusID r) = Some live \<Longrightarrow>
   (Method r = ''addClaim'' \<longrightarrow>
      Handler T now st r False =
        ((fresh_response now)\<lparr>Ok := False, Error := ''invalid authentication''\<rparr>, st)) \<and>
   (Method r = ''dump'' \<and> selected_view T live (RootHash r) = (t, None) \<longrightarrow>
      Handler T now st r False =
        ((fresh_response now)\<lparr>Ok := False, Error := ''invalid authentication''\<rparr>, st)) \<and>
   (Method r = ''dump'' \<and> selected_view T live (RootHash r) = (t, Some e) \<longrightarrow>
      Handler T now st r False =
        ((fresh_response now)\<lparr>Ok := False, Error := ''invalid root hash''\<rparr>, st))"
  by (simp add: Handler_addClaim Handler_dump Handler_bad_root)

theorem Handler_unauthorized_witness:
  "Handler ref_tree 1000 one_census (request ''addClaim'' ''census1'' ''bob'' [] []) False =
     (\<lparr>Ok = False, Request = [], Error = ''invalid authentication'', Root = [],
       Siblings = [], Idx = [], ValidProof = False, ClaimsData = [], TimeStamp = 1000\<rparr>,
      one_census) \<and>
   Handler ref_tree 1000 one_census (request ''dump'' ''census1'' [] ''ralice;'' []) False =
     (\<lparr>Ok = False, Request = [], Error = ''invalid authentication'', Root = [],
       Siblings = [], Idx = [], ValidProof = False, ClaimsData = [], TimeStamp = 1000\<rparr>,
      one_census) \<and>
   Handler ref_tree 1000 one_census (request ''dump'' ''census1'' [] ''r-unknown'' []) False =
     (\<lparr>Ok = False, Request = [], Error = ''invalid root hash'', Root = [],
       Siblings = [], Idx = [], ValidProof = False, ClaimsData = [], TimeStamp = 1000\<rparr>,
      one_census)"
  using Handler_unauthorized [where st = one_census and live = "[''alice'']" and T = ref_tree
          and r = "request ''addClaim'' ''census1'' ''bob'' [] []" and now = 1000]
        Handler_unauthorized [where st = one_census and live = "[''alice'']" and T = ref_tree
          and r = "request ''dump'' ''census1'' [] ''ralice;'' []" and now = 1000
          and t = "[''alice'']"]
        Handler_unauthorized [where st = one_census and live = "[''alice'']" and T = ref_tree
          and r = "request ''dump'' ''census1'' [] ''r-unknown'' []" and now = 1000
          and t = "[]" and e = "''root not found''"]
  by (simp add: one_census_def request_def ref_tree_def ref_root_def selected_view_def
        fresh_response_def new_CensusResponse_def)

section \<open>One outcome per request\<close>

text \<open>
  What holds of the outcome, for a tree that keeps the conventions above: the response
  is either \<open>ok = true\<close> with an empty error or \<open>ok = false\<close> with a non-empty error, and a
  response with an error carries no operation result.
\<close>

lemma convention_AddClaim:
  "tree_error_convention T \<Longrightarrow> AddClaim T t c = (t', Some e) \<Longrightarrow> e \<noteq> []"
  unfolding tree_error_convention_def by (metis snd_conv)

lemma convention_GenProof:
  "tree_error_convention T \<Longrightarrow> GenProof T t c = (s, Some e) \<Longrightarrow> e \<noteq> [] \<and> s = []"
  unfolding tree_error_convention_def by (metis fst_conv snd_conv option.distinct(1))

lemma convention_Dump:
  "tree_error_convention T \<Longrightarrow> Dump T t = (vs, Some e) \<Longrightarrow> e \<noteq> []"
  unfolding tree_error_convention_def by (metis snd_conv)

lemma convention_CheckProof:
  "tree_error_convention T \<Longrightarrow> CheckProof T t c p = (v, Some e) \<Longrightarrow> e \<noteq> []"
  unfolding tree_error_convention_def by (metis snd_conv)

lemma fresh_response_fields:
  "Ok (fresh_response now)" "Error (fresh_response now) = []" "no_result (fresh_response now)"
  by (simp_all add: fresh_response_def new_CensusResponse_def no_result_def)

lemma no_result_error [simp]:
  "no_result (resp\<lparr>Ok := b, Error := e\<rparr>) = no_result resp"
  by (simp add: no_result_def)

lemma Handler_ok_or_error:
  assumes "tree_error_convention T"
  shows "(Ok (fst (Handler T now st r isAuth)) \<and> Error (fst (Handler T now st r isAuth)) = []) \<or>
         (\<not> Ok (fst (Handler T now st r isAuth)) \<and> Error (fst (Handler T now st r isAuth)) \<noteq> [])"
proof (cases rule: Handler_paths [where st = st and r = r and T = T])
  case unknown
  then show ?thesis by (simp add: Handler_unknown)
next
  case (getRoot live)
  then show ?thesis by (simp add: Handler_getRoot fresh_response_fields)
next
  case (addClaim live)
  then show ?thesis
    using convention_AddClaim [OF assms]
    by (auto simp add: Handler_addClaim fresh_response_fields split: prod.split option.split)
next
  case (bad_root live t e)
  then show ?thesis by (simp add: Handler_bad_root)
next
  case (genProof live t)
  then show ?thesis
    using convention_GenProof [OF assms]
    by (auto simp add: Handler_genProof fresh_response_fields split: prod.split option.split)
next
  case (getIdx live t)
  then show ?thesis by (simp add: Handler_getIdx fresh_response_fields)
next
  case (dump live t)
  then show ?thesis
    using convention_Dump [OF assms]
    by (auto simp add: Handler_dump fresh_response_fields split: prod.split option.split)
next
  case (checkProof live t)
  then show ?thesis
    using convention_CheckProof [OF assms]
    by (auto simp add: Handler_checkProof fresh_response_fields split: prod.split option.split)
next
  case (other live t)
  then show ?thesis by (simp add: Handler_other fresh_response_fields)
qed

lemma Handler_error_no_result:
  assumes "tree_error_convention T" and "Error (fst (Handler T now st r isAuth)) \<noteq> []"
  shows "no_result (fst (Handler T now st r isAuth))"
proof (cases rule: Handler_paths [where st = st and r = r and T = T])
  case unknown
  then show ?thesis by (simp add: Handler_unknown fresh_response_fields)
next
  case (getRoot live)
  with assms(2) show ?thesis by (simp add: Handler_getRoot fresh_response_fields)
next
  case (addClaim live)
  then show ?thesis
    by (auto simp add: Handler_addClaim fresh_response_fields split: prod.split option.split)
next
  case (bad_root live t e)
  then show ?thesis by (simp add: Handler_bad_root fresh_response_fields)
next
  case (genProof live t)
  with assms(2) show ?thesis
    using convention_GenProof [OF assms(1)] fresh_response_fields(3) [of now]
    by (auto simp add: Handler_genProof fresh_response_fields(1,2) no_result_def
             split: prod.splits option.splits)
next
  case (getIdx live t)
  with assms(2) show ?thesis by (simp add: Handler_getIdx fresh_response_fields)
next
  case (dump live t)
  with assms(2) show ?thesis
    by (auto simp add: Handler_dump fresh_response_fields split: prod.splits option.splits)
next
  case (checkProof live t)
  with assms(2) show ?thesis
    by (auto simp add: Handler_checkProof fresh_response_fields split: prod.splits option.splits if_splits)
next
  case (other live t)
  with assms(2) show ?thesis by (simp add: Handler_other fresh_response_fields)
qed

text \<open>
  C6 (the code at the failing input). \<open>GetIndex\<close> fails for a claim that is not in the
  tree, and the response to \<open>getIdx\<close> is \<open>ok = true\<close> with an empty error and with no
  operation result: it is neither a success that carries the index nor a failure that
  carries an error. \<open>Handler\<close> returns from the \<open>getIdx\<close> branch without testing the
  error it has just assigned.
\<close>

theorem Handler_getIdx_neither_outcome:
  "MkTrees one_census ''census1'' = Some [''alice''] \<and>
   snd (GetIndex ref_tree [''alice''] ''carol'') = Some ''claim not found'' \<and>
   Ok (fst (Handler ref_tree 1000 one_census (request ''getIdx'' ''census1'' ''carol'' [] []) False)) \<and>
   Error (fst (Handler ref_tree 1000 one_census (request ''getIdx'' ''census1'' ''carol'' [] []) False)) = [] \<and>
   no_result (fst (Handler ref_tree 1000 one_census (request ''getIdx'' ''census1'' ''carol'' [] []) False))"
  by (simp add: Handler_def one_census_def request_def ref_tree_def new_CensusResponse_def
        no_result_def)

section \<open>The HTTP path\<close>

lemma Handler_ignores_timestamp:
  "Handler T now st (r\<lparr>ReqTimeStamp := ts\<rparr>) isAuth = Handler T now st r isAuth"
  by (simp add: Handler_def cong: option.case_cong prod.case_cong if_cong)

lemma HTTPhandler_decoded:
  "decodeJSON b = (rm, None) \<Longrightarrow> Method (rm_Request rm) \<noteq> [] \<Longrightarrow>
   HTTPhandler T decodeJSON SignJSON encodeJSON now st (Some b) =
     (httpReply encodeJSON
        \<lparr>rs_ID = rm_ID rm,
         rs_Response = (fst (Handler T now st (rm_Request rm) True))\<lparr>Request := rm_ID rm\<rparr>,
         rs_Signature =
           fst (SignJSON ((fst (Handler T now st (rm_Request rm) True))\<lparr>Request := rm_ID rm\<rparr>))\<rparr>,
      snd (Handler T now st (rm_Request rm) True))"
  by (cases "Method (rm_Request rm)")
     (simp_all add: HTTPhandler_def checkRequest_def Let_def split: prod.split)

text \<open>
  C2. A request that reaches the dispatcher over HTTP (a body that decodes to \<open>rm\<close>, with
  a method) is handled by \<open>Handler\<close> with the authorization flag \<open>True\<close>: the reply is
  built from that call alone. \<open>HTTPhandler\<close> has no signature verification among its
  parameters and \<open>checkAuth\<close> does not occur in it. \<open>Handler\<close> does not read the
  timestamp, so a second request that differs from the first in its timestamp and
  signature only gets the same reply and leaves the same state.
\<close>

theorem HTTPhandler_authorizes_all:
  assumes "decodeJSON b = (rm, None)"
    and "decodeJSON b' = (rm\<lparr>rm_Request := (rm_Request rm)\<lparr>ReqTimeStamp := ts\<rparr>,
                              rm_Signature := sg\<rparr>, None)"
    and "Method (rm_Request rm) \<noteq> []"
  shows "HTTPhandler T decodeJSON SignJSON encodeJSON now st (Some b) =
           (httpReply encodeJSON
              \<lparr>rs_ID = rm_ID rm,
               rs_Response = (fst (Handler T now st (rm_Request rm) True))\<lparr>Request := rm_ID rm\<rparr>,
               rs_Signature =
                 fst (SignJSON ((fst (Handler T now st (rm_Request rm) True))\<lparr>Request := rm_ID rm\<rparr>))\<rparr>,
            snd (Handler T now st (rm_Request rm) True)) \<and>
         Handler T now st (rm_Request rm\<lparr>ReqTimeStamp := ts\<rparr>) True =
           Handler T now st (rm_Request rm) True \<and>
         HTTPhandler T decodeJSON SignJSON encodeJSON now st (Some b') =
           HTTPhandler T decodeJSON SignJSON encodeJSON now st (Some b)"
proof (intro conjI)
  show first: "HTTPhandler T decodeJSON SignJSON encodeJSON now st (Some b) =
           (httpReply encodeJSON
              \<lparr>rs_ID = rm_ID rm,
               rs_Response = (fst (Handler T now st (rm_Request rm) True))\<lparr>Request := rm_ID rm\<rparr>,
               rs_Signature =
                 fst (SignJSON ((fst (Handler T now st (rm_Request rm) True))\<lparr>Request := rm_ID rm\<rparr>))\<rparr>,
            snd (Handler T now st (rm_Request rm) True))"
    using assms(1,3) by (rule HTTPhandler_decoded)
  show "Handler T now st (rm_Request rm\<lparr>ReqTimeStamp := ts\<rparr>) True =
           Handler T now st (rm_Request rm) True"
    by (rule Handler_ignores_timestamp)
  have "HTTPhandler T decodeJSON SignJSON encodeJSON now st (Some b') =
           (httpReply encodeJSON
              \<lparr>rs_ID = rm_ID rm,
               rs_Response = (fst (Handler T now st (rm_Request rm) True))\<lparr>Request := rm_ID rm\<rparr>,
               rs_Signature =
                 fst (SignJSON ((fst (Handler T now st (rm_Request rm) True))\<lparr>Request := rm_ID rm\<rparr>))\<rparr>,
            snd (Handler T now st (rm_Request rm) True))"
    using assms(3)
      HTTPhandler_decoded [where decodeJSON = decodeJSON and b = b'
        and rm = "rm\<lparr>rm_Request := (rm_Request rm)\<lparr>ReqTimeStamp := ts\<rparr>, rm_Signature := sg\<rparr>",
        OF assms(2)]
    by (simp add: Handler_ignores_timestamp)
  with first show "HTTPhandler T decodeJSON SignJSON encodeJSON now st (Some b') =
           HTTPhandler T decodeJSON SignJSON encodeJSON now st (Some b)"
    by simp
qed

theorem HTTPhandler_authorizes_all_witness:
  "HTTPhandler ref_tree ref_decode ref_sign ref_encode 1000 one_census (Some ''dump, unsigned'') =
     (HttpReply ''req1 ok alice'', one_census) \<and>
   HTTPhandler ref_tree ref_decode ref_sign ref_encode 1000 one_census (Some ''dump, signed now'') =
     (HttpReply ''req1 ok alice'', one_census)"
  using HTTPhandler_authorizes_all [where decodeJSON = ref_decode and b = "''dump, unsigned''"
          and b' = "''dump, signed now''" and rm = "dump_message 0 []" and ts = 1000
          and sg = "''0xsig''" and T = ref_tree and SignJSON = ref_sign
          and encodeJSON = ref_encode and now = 1000 and st = one_census]
  by (simp add: ref_decode_def dump_message_def request_def Handler_def one_census_def
        ref_tree_def httpReply_def ref_encode_def ref_sign_def new_CensusResponse_def)

section \<open>Registering a census twice\<close>

lemma empty_map_reset: "(if dom m = {} then Map.empty else m) = m"
  by auto

text \<open>
  C5 (as stated, refuted). \<open>census1\<close> is registered with the tree \<open>[alice]\<close> and the key
  \<open>key1\<close>; a second \<open>AddNamespace\<close> with the same id returns a state (it has no error
  to return) in which \<open>census1\<close> is bound to an empty tree and to \<open>key2\<close>.
\<close>

theorem AddNamespace_duplicate_counterexample:
  "MkTrees one_census ''census1'' = Some [''alice''] \<and>
   Signatures one_census ''census1'' = Some ''key1'' \<and>
   MkTrees (AddNamespace ref_tree one_census ''census1'' ''key2'') ''census1'' = Some [] \<and>
   Signatures (AddNamespace ref_tree one_census ''census1'' ''key2'') ''census1'' = Some ''key2''"
  by (simp add: AddNamespace_def one_census_def ref_tree_def)

text \<open>
  C5 (amended). \<open>AddNamespace\<close> reports no error, whether the id is registered or not:
  afterwards the id is bound to a fresh tree \<open>Init name\<close> and to the key given, and the
  bindings of every other id are as before.
\<close>

theorem AddNamespace_binds:
  "MkTrees (AddNamespace T st name pubKey) name = Some (Init T name) \<and>
   Signatures (AddNamespace T st name pubKey) name = Some pubKey \<and>
   (k \<noteq> name \<longrightarrow>
      MkTrees (AddNamespace T st name pubKey) k = MkTrees st k \<and>
      Signatures (AddNamespace T st name pubKey) k = Signatures st k)"
  by (simp add: AddNamespace_def Let_def empty_map_reset)

theorem AddNamespace_binds_witness:
  "AddNamespace ref_tree (AddNamespace ref_tree one_census ''census2'' ''key2'') ''census1'' ''key3'' =
     \<lparr>MkTrees = [''census1'' \<mapsto> [], ''census2'' \<mapsto> []],
      Signatures = [''census1'' \<mapsto> ''key3'', ''census2'' \<mapsto> ''key2'']\<rparr>"
  using AddNamespace_binds [where T = ref_tree and name = "''census1''" and pubKey = "''key3''"
          and k = "''census2''" and st = "AddNamespace ref_tree one_census ''census2'' ''key2''"]
  by (auto simp add: AddNamespace_def one_census_def ref_tree_def fun_eq_iff)

section \<open>The view selected by rootHash\<close>

text \<open>
  What holds of the selection: for a method other than \<open>getRoot\<close> and \<open>addClaim\<close> on a
  registered census, a \<open>rootHash\<close> of two characters or more whose snapshot fails is
  answered \<open>"invalid root hash"\<close>, and a \<open>rootHash\<close> of at most one character selects
  the live tree.
\<close>

lemma Handler_view:
  assumes "MkTrees st (CensusID r) = Some live"
    and "Method r \<noteq> ''getRoot''" "Method r \<noteq> ''addClaim''"
  shows "(1 < length (RootHash r) \<and> snd (Snapshot T live (RootHash r)) \<noteq> None \<longrightarrow>
            Handler T now st r isAuth =
              ((fresh_response now)\<lparr>Ok := False, Error := ''invalid root hash''\<rparr>, st)) \<and>
         (length (RootHash r) \<le> 1 \<longrightarrow> selected_view T live (RootHash r) = (live, None))"
proof (intro conjI impI)
  assume a: "1 < length (RootHash r) \<and> snd (Snapshot T live (RootHash r)) \<noteq> None"
  then obtain t e where "Snapshot T live (RootHash r) = (t, Some e)"
    by (cases "Snapshot T live (RootHash r)") auto
  with a have "selected_view T live (RootHash r) = (t, Some e)"
    by (simp add: selected_view_def)
  with assms show "Handler T now st r isAuth =
              ((fresh_response now)\<lparr>Ok := False, Error := ''invalid root hash''\<rparr>, st)"
    by (rule Handler_bad_root)
next
  assume "length (RootHash r) \<le> 1"
  then show "selected_view T live (RootHash r) = (live, None)"
    by (simp add: selected_view_def)
qed

text \<open>
  C3 (the code at the failing input). The \<open>rootHash\<close> \<open>"x"\<close> is supplied and is not a
  root the tree ever had (\<open>Snapshot\<close> fails on it), yet \<open>genProof\<close> answers \<open>ok = true\<close>
  with the proof from the live tree: the test that guards the snapshot is
  \<open>len(r.RootHash) > 1\<close>.
\<close>

theorem Handler_short_rootHash_uses_live_tree:
  "MkTrees one_census ''census1'' = Some [''alice''] \<and>
   Snapshot ref_tree [''alice''] ''x'' = ([], Some ''root not found'') \<and>
   fst (Handler ref_tree 1000 one_census (request ''genProof'' ''census1'' ''alice'' ''x'' []) True) =
     \<lparr>Ok = True, Request = [], Error = [], Root = [],
      Siblings = ''proof:alice'', Idx = [], ValidProof = False, ClaimsData = [], TimeStamp = 1000\<rparr>"
  by (simp add: Handler_def one_census_def request_def ref_tree_def ref_root_def
        new_CensusResponse_def)

section \<open>Errors of the tree\<close>

text \<open>
  What holds of the propagation: the error text of \<open>AddClaim\<close>, \<open>GenProof\<close>, \<open>Dump\<close>
  and \<open>CheckProof\<close> is copied into the response, with \<open>ok = false\<close>.
\<close>

lemma Handler_tree_error:
  assumes "MkTrees st (CensusID r) = Some live"
  shows "(Method r = ''addClaim'' \<and> isAuth \<and> snd (AddClaim T live (ClaimData r)) = Some e \<longrightarrow>
            fst (Handler T now st r isAuth) = (fresh_response now)\<lparr>Ok := False, Error := e\<rparr>) \<and>
         (selected_view T live (RootHash r) = (t, None) \<longrightarrow>
            (Method r = ''genProof'' \<and> snd (GenProof T t (ClaimData r)) = Some e \<longrightarrow>
               \<not> Ok (fst (Handler T now st r isAuth)) \<and> Error (fst (Handler T now st r isAuth)) = e) \<and>
            (Method r = ''dump'' \<and> isAuth \<and> snd (Dump T t) = Some e \<longrightarrow>
               fst (Handler T now st r isAuth) = (fresh_response now)\<lparr>Ok := False, Error := e\<rparr>) \<and>
            (Method r = ''checkProof'' \<and> ProofData r \<noteq> [] \<and>
             snd (CheckProof T t (ClaimData r) (ProofData r)) = Some e \<longrightarrow>
               fst (Handler T now st r isAuth) = (fresh_response now)\<lparr>Ok := False, Error := e\<rparr>))"
  using assms
  by (auto simp add: Handler_addClaim Handler_genProof Handler_dump Handler_checkProof
        fresh_response_fields split: prod.splits option.splits)

text \<open>
  C4 (the code at the failing input). \<open>GetIndex\<close> returns an error for a claim that is
  not in the tree, and the response to \<open>getIdx\<close> is \<open>ok = true\<close> with an empty error:
  \<open>Handler\<close> assigns the error and returns without testing it.
\<close>

theorem Handler_getIdx_drops_error:
  "MkTrees one_census ''census1'' = Some [''alice''] \<and>
   GetIndex ref_tree [''alice''] ''bob'' = ([], Some ''claim not found'') \<and>
   fst (Handler ref_tree 1000 one_census (request ''getIdx'' ''census1'' ''bob'' [] []) True) =
     \<lparr>Ok = True, Request = [], Error = [], Root = [],
      Siblings = [], Idx = [], ValidProof = False, ClaimsData = [], TimeStamp = 1000\<rparr>"
  by (simp add: Handler_def one_census_def request_def ref_tree_def new_CensusResponse_def)

end
